theory Spec2Isabelle
  imports Complex_Main "HOL-Library.Sublist"
begin

section \<open>Python values shared by the three security modules\<close>

text \<open>
  Exceptions are values. Only the class distinctions the code itself makes are kept:
  \<^verbatim>\<open>except PermissionError\<close> (in \<^verbatim>\<open>is_safe_path\<close>) and \<^verbatim>\<open>except Exception\<close>
  (in \<^verbatim>\<open>execute\<close>), which does not catch a bare \<^verbatim>\<open>BaseException\<close> such as
  \<^verbatim>\<open>KeyboardInterrupt\<close>. The string is what \<^verbatim>\<open>str(e)\<close> returns.
\<close>

datatype exc_class =
    PermissionError | FileNotFoundError | NotADirectoryError | ValueError
  | RuntimeError | OtherException | BaseExceptionOnly

datatype pyexc = PyExc (exc_class: exc_class) (exc_str: string)

definition is_Exception :: "pyexc \<Rightarrow> bool" where
  "is_Exception e = (exc_class e \<noteq> BaseExceptionOnly)"

definition is_PermissionError :: "pyexc \<Rightarrow> bool" where
  "is_PermissionError e = (exc_class e = PermissionError)"

section \<open>pathlib: pure POSIX paths\<close>

text \<open>
  A \<^verbatim>\<open>PurePosixPath\<close> is its root (\<^verbatim>\<open>''\<close>, \<^verbatim>\<open>'/'\<close> or \<^verbatim>\<open>'//'\<close>) and the list of its
  names. Parsing a string drops empty and \<^verbatim>\<open>'.'\<close> components and keeps \<^verbatim>\<open>'..'\<close>;
  exactly two leading slashes are kept as the root \<^verbatim>\<open>'//'\<close>.
\<close>

datatype ppath = PPath (pp_root: string) (pp_names: "string list")

fun split_sep :: "string \<Rightarrow> string list" where
  "split_sep [] = [[]]"
| "split_sep (c # cs) =
     (if c = CHR ''/'' then [] # split_sep cs
      else (case split_sep cs of [] \<Rightarrow> [[c]] | x # xs \<Rightarrow> (c # x) # xs))"

definition splitroot :: "string \<Rightarrow> string \<times> string" where
  "splitroot part =
     (let stripped_part = dropWhile (\<lambda>c. c = CHR ''/'') part in
      if part \<noteq> [] \<and> hd part = CHR ''/'' then
        (if length part - length stripped_part = 2 then (''//'', stripped_part)
         else (''/'', stripped_part))
      else ([], part))"

definition Path :: "string \<Rightarrow> ppath" where
  "Path s = (case splitroot s of (r, rel) \<Rightarrow>
     PPath r (filter (\<lambda>x. x \<noteq> [] \<and> x \<noteq> ''.'') (split_sep rel)))"

definition is_absolute :: "ppath \<Rightarrow> bool" where
  "is_absolute p = (pp_root p \<noteq> [])"

definition joinpath :: "ppath \<Rightarrow> string \<Rightarrow> ppath" where
  "joinpath a s =
     (let b = Path s in
      if pp_root b \<noteq> [] then b else PPath (pp_root a) (pp_names a @ pp_names b))"

fun join_str :: "string \<Rightarrow> string list \<Rightarrow> string" where
  "join_str sep [] = []"
| "join_str sep [x] = x"
| "join_str sep (x # y # ys) = x @ sep @ join_str sep (y # ys)"

definition str_path :: "ppath \<Rightarrow> string" where
  "str_path p =
     (let s = pp_root p @ join_str ''/'' (pp_names p) in if s = [] then ''.'' else s)"

text \<open>
  \<^verbatim>\<open>parents\<close> lists the proper ancestors, nearest first; \<^verbatim>\<open>is_relative_to\<close> is
  \<^verbatim>\<open>other == self or other in self.parents\<close>; \<^verbatim>\<open>relative_to\<close> raises \<^verbatim>\<open>ValueError\<close>
  when that fails and otherwise returns the remaining names as a relative path.
\<close>

definition parents :: "ppath \<Rightarrow> ppath list" where
  "parents p = map (\<lambda>k. PPath (pp_root p) (take k (pp_names p))) (rev [0..<length (pp_names p)])"

definition is_relative_to :: "ppath \<Rightarrow> ppath \<Rightarrow> bool" where
  "is_relative_to p other = (other = p \<or> other \<in> set (parents p))"

definition relative_to :: "ppath \<Rightarrow> ppath \<Rightarrow> pyexc + ppath" where
  "relative_to p other =
     (if is_relative_to p other
      then Inr (PPath [] (drop (length (pp_names other)) (pp_names p)))
      else Inl (PyExc ValueError (str_path p @ '' is not in the subpath of '' @ str_path other)))"

section \<open>The file system as seen by the boundary guard\<close>

text \<open>
  \<^verbatim>\<open>Path.resolve()\<close> and \<^verbatim>\<open>Path.exists()\<close> ask the operating system. They are the two
  fields of a file system: \<open>resolve\<close> returns the canonical path (symlinks and \<^verbatim>\<open>..\<close>
  resolved) or raises.
\<close>

record filesys =
  resolve :: "ppath \<Rightarrow> pyexc + ppath"
  exists_path :: "ppath \<Rightarrow> bool"

section \<open>isolation.py: ProjectIsolation\<close>

record isolation =
  project_root :: ppath
  enable_audit :: bool

definition ProjectIsolation :: "filesys \<Rightarrow> string \<Rightarrow> bool \<Rightarrow> pyexc + isolation" where
  "ProjectIsolation fs root_str audit =
     (case resolve fs (Path root_str) of
        Inl e \<Rightarrow> Inl e
      | Inr r \<Rightarrow>
          if \<not> exists_path fs r
          then Inl (PyExc ValueError (''Project root does not exist: '' @ root_str))
          else Inr \<lparr>project_root = r, enable_audit = audit\<rparr>)"

text \<open>
  \<^verbatim>\<open>validate_path\<close>: both \<^verbatim>\<open>except\<close> clauses re-raise, so every exception of
  \<^verbatim>\<open>resolve\<close> leaves the function unchanged. The audit flag only selects log calls;
  the calls to the logger are a side channel and are left out throughout.
\<close>

definition validate_path :: "filesys \<Rightarrow> isolation \<Rightarrow> string \<Rightarrow> pyexc + ppath" where
  "validate_path fs guard path =
     (case (if is_absolute (Path path) then resolve fs (Path path)
            else resolve fs (joinpath (project_root guard) path)) of
        Inl e \<Rightarrow> Inl e
      | Inr target \<Rightarrow>
          if \<not> is_relative_to target (project_root guard)
          then Inl (PyExc PermissionError (''Path traversal detected: '' @ path))
          else Inr target)"

definition is_safe_path :: "filesys \<Rightarrow> isolation \<Rightarrow> string \<Rightarrow> pyexc + bool" where
  "is_safe_path fs guard path =
     (case validate_path fs guard path of
        Inr _ \<Rightarrow> Inr True
      | Inl e \<Rightarrow> if is_PermissionError e then Inr False else Inl e)"

definition get_relative_path :: "filesys \<Rightarrow> isolation \<Rightarrow> string \<Rightarrow> pyexc + string" where
  "get_relative_path fs guard path =
     (case validate_path fs guard path of
        Inl e \<Rightarrow> Inl e
      | Inr validated_path \<Rightarrow>
          (case relative_to validated_path (project_root guard) of
             Inl e \<Rightarrow> Inl e
           | Inr rel \<Rightarrow> Inr (str_path rel)))"


subsection \<open>What the specification calls canonical form and containment\<close>

text \<open>
  The canonical form of a path string: resolved directly when absolute, joined to the
  project root and then resolved when relative. A canonical path lies within the root when
  it is the root extended by zero or more names.
\<close>

definition canonical_form :: "filesys \<Rightarrow> isolation \<Rightarrow> string \<Rightarrow> pyexc + ppath" where
  "canonical_form fs guard p =
     resolve fs (if pp_root (Path p) = [] then joinpath (project_root guard) p else Path p)"

definition descendant_or_equal :: "ppath \<Rightarrow> ppath \<Rightarrow> bool" where
  "descendant_or_equal t r = (pp_root t = pp_root r \<and> prefix (pp_names r) (pp_names t))"

text \<open>
  Canonicalization is idempotent in a file system when resolving a canonical path gives
  the same path again.
\<close>

definition idempotent_resolve :: "filesys \<Rightarrow> bool" where
  "idempotent_resolve fs = (\<forall>p q. resolve fs p = Inr q \<longrightarrow> resolve fs q = Inr q)"

subsection \<open>A small file system to run the guard on\<close>

text \<open>
  A POSIX file system given by its current directory, its symbolic links (canonical
  location to absolute target) and its existing paths. \<open>realpath_names\<close> walks the names
  left to right as \<^verbatim>\<open>os.path.realpath\<close> does: \<^verbatim>\<open>..\<close> drops the last resolved name, a
  name that is a link restarts at its target. A path with an embedded NUL makes
  \<^verbatim>\<open>os.lstat\<close> raise \<^verbatim>\<open>ValueError\<close>, which \<^verbatim>\<open>resolve\<close> does not catch; more than 40
  nested links are reported as a loop.
\<close>

fun realpath_names ::
  "nat \<Rightarrow> (string list \<times> string list) list \<Rightarrow> string list \<Rightarrow> string list \<Rightarrow> string list option"
where
  "realpath_names n links acc [] = Some acc"
| "realpath_names n links acc (c # cs) =
     (if c = ''..'' then realpath_names n links (butlast acc) cs
      else (case map_of links (acc @ [c]) of
              None \<Rightarrow> realpath_names n links (acc @ [c]) cs
            | Some target \<Rightarrow>
                (case n of 0 \<Rightarrow> None | Suc m \<Rightarrow> realpath_names m links [] (target @ cs))))"

definition posix_resolve ::
  "string list \<Rightarrow> (string list \<times> string list) list \<Rightarrow> ppath \<Rightarrow> pyexc + ppath" where
  "posix_resolve cwd_names links p =
     (if \<exists>name \<in> set (pp_names p). CHR 0x00 \<in> set name
      then Inl (PyExc ValueError ''embedded null byte'')
      else (case realpath_names 40 links []
                   ((if pp_root p = [] then cwd_names else []) @ pp_names p) of
              None \<Rightarrow> Inl (PyExc RuntimeError ''Symlink loop'')
            | Some ns \<Rightarrow> Inr (PPath ''/'' ns)))"

definition demo_fs :: filesys where
  "demo_fs =
     \<lparr>resolve = posix_resolve [''home'', ''dev'']
                  [([''srv'', ''proj'', ''out''], [''tmp'', ''elsewhere''])],
      exists_path = (\<lambda>p. p \<in> set [PPath ''/'' [], PPath ''/'' [''srv''],
                                     PPath ''/'' [''srv'', ''proj''],
                                     PPath ''/'' [''home'', ''dev'']])\<rparr>"

definition demo_guard :: isolation where
  "demo_guard = \<lparr>project_root = PPath ''/'' [''srv'', ''proj''], enable_audit = True\<rparr>"


subsection \<open>sandbox\_exec and the process working directory\<close>

text \<open>
  The state of the operating system that the guard touches: the working directory, the
  directories that can be entered, and the file contents. \<^verbatim>\<open>os.getcwd()\<close> and
  \<^verbatim>\<open>os.chdir()\<close> raise \<^verbatim>\<open>FileNotFoundError\<close> on a directory that is not there.
\<close>

record world =
  cwd :: ppath
  dirs :: "ppath set"
  files :: "ppath \<Rightarrow> string option"

definition os_getcwd :: "'z world_scheme \<Rightarrow> pyexc + ppath" where
  "os_getcwd w =
     (if cwd w \<in> dirs w then Inr (cwd w)
      else Inl (PyExc FileNotFoundError ''[Errno 2] No such file or directory''))"

definition os_chdir :: "ppath \<Rightarrow> 'z world_scheme \<Rightarrow> pyexc + 'z world_scheme" where
  "os_chdir p w =
     (if p \<in> dirs w then Inr (w\<lparr>cwd := p\<rparr>)
      else Inl (PyExc FileNotFoundError
                  (''[Errno 2] No such file or directory: '' @ str_path p)))"

text \<open>
  The guard is a Python object: whatever runs inside the scope can hold it and assign to
  its attributes. So the state of the process is the state of the operating system
  together with the guard object \<^verbatim>\<open>self\<close>, and the callback is any function on that
  state which returns a value or raises.

  \<^verbatim>\<open>old_cwd = os.getcwd()\<close> runs before the \<^verbatim>\<open>try\<close>. The \<^verbatim>\<open>except\<close> clause re-raises. The
  \<^verbatim>\<open>finally\<close> clause runs on every path through the \<^verbatim>\<open>try\<close>; an exception raised in it
  replaces the pending result.
\<close>

record proc = world +
  guard_obj :: isolation

definition sandbox_exec ::
  "('z proc_scheme \<Rightarrow> (pyexc + 'a) \<times> 'z proc_scheme) \<Rightarrow> 'z proc_scheme
     \<Rightarrow> (pyexc + 'a) \<times> 'z proc_scheme" where
  "sandbox_exec func s =
     (case os_getcwd s of
        Inl e \<Rightarrow> (Inl e, s)
      | Inr old_cwd \<Rightarrow>
          (case (case os_chdir (project_root (guard_obj s)) s of
                   Inl e \<Rightarrow> (Inl e, s)
                 | Inr s1 \<Rightarrow> func s1) of
             (res, s2) \<Rightarrow>
               (case os_chdir old_cwd s2 of
                  Inl e \<Rightarrow> (Inl e, s2)
                | Inr s3 \<Rightarrow> (res, s3))))"

definition demo_world :: world where
  "demo_world =
     \<lparr>cwd = PPath ''/'' [''home'', ''dev''],
      dirs = {PPath ''/'' [], PPath ''/'' [''srv''], PPath ''/'' [''srv'', ''proj''],
              PPath ''/'' [''home'', ''dev'']},
      files = (\<lambda>p. None)\<rparr>"


section \<open>secure\_executor.py: SecurePythonExecutor\<close>

definition DEFAULT_AUTHORIZED_IMPORTS :: "string list" where
  "DEFAULT_AUTHORIZED_IMPORTS =
     [''json'', ''math'', ''datetime'', ''re'', ''collections'', ''itertools'', ''functools'',
      ''typing'', ''dataclasses'', ''pathlib'', ''os.path'', ''statistics'', ''random'',
      ''string'', ''textwrap'', ''unicodedata'']"

definition BLOCKED_IMPORTS :: "string list" where
  "BLOCKED_IMPORTS =
     [''subprocess'', ''os.system'', ''os.popen'', ''os.spawn'', ''commands'', ''pty'',
      ''fcntl'', ''resource'', ''ctypes'', ''pickle'', ''marshal'', ''shelve'',
      ''__builtins__'']"

record executor =
  isolation :: isolation
  authorized_imports :: "string set"

definition SecurePythonExecutor :: "isolation \<Rightarrow> string list option \<Rightarrow> executor" where
  "SecurePythonExecutor project_isolation additional_authorized_imports =
     \<lparr>isolation = project_isolation,
      authorized_imports =
        (case additional_authorized_imports of
           None \<Rightarrow> set DEFAULT_AUTHORIZED_IMPORTS
         | Some extra \<Rightarrow>
             if extra \<noteq> [] then set DEFAULT_AUTHORIZED_IMPORTS \<union> set extra
             else set DEFAULT_AUTHORIZED_IMPORTS)\<rparr>"

text \<open>
  Python values, as far as the executor handles them. The two file functions in the
  namespace are bound methods of the executor (\<^verbatim>\<open>self._secure_read_file\<close>), and
  \<^verbatim>\<open>get_project_root\<close> is a lambda that closes over \<^verbatim>\<open>self\<close>: each carries the executor
  object, which running code reaches as \<^verbatim>\<open>__self__\<close> or through \<^verbatim>\<open>__closure__\<close>. Any
  other object is known by a description only.
\<close>

datatype pyval =
    PyNone
  | PyBool bool
  | PyInt int
  | PyStr string
  | PyBuiltin string
  | PyDict "(string \<times> pyval) list"
  | PyBoundMethod executor string
  | PyLambda executor string
  | PyObject string

record ExecutionResult =
  success :: bool
  result :: pyval
  output_str :: "string option"
  error :: "string option"

definition import_patterns :: "string \<Rightarrow> string list" where
  "import_patterns blocked =
     [''import '' @ blocked,
      ''from '' @ blocked,
      ''__import__('' @ [CHR 0x27] @ blocked @ [CHR 0x27],
      ''__import__('' @ [CHR 0x22] @ blocked @ [CHR 0x22]]"

definition check_blocked_imports :: "string \<Rightarrow> string list" where
  "check_blocked_imports code =
     filter (\<lambda>blocked. list_ex (\<lambda>pattern. sublist pattern code) (import_patterns blocked))
       BLOCKED_IMPORTS"

definition safe_builtins :: "(string \<times> pyval) list" where
  "safe_builtins =
     map (\<lambda>name. (name, PyBuiltin name))
       [''abs'', ''all'', ''any'', ''ascii'', ''bin'', ''bool'', ''bytearray'', ''bytes'',
        ''callable'', ''chr'', ''complex'', ''dict'', ''dir'', ''divmod'', ''enumerate'',
        ''filter'', ''float'', ''format'', ''frozenset'', ''getattr'', ''hasattr'', ''hash'',
        ''hex'', ''id'', ''int'', ''isinstance'', ''issubclass'', ''iter'', ''len'', ''list'',
        ''map'', ''max'', ''min'', ''next'', ''object'', ''oct'', ''ord'', ''pow'', ''print'',
        ''range'', ''repr'', ''reversed'', ''round'', ''set'', ''slice'', ''sorted'', ''str'',
        ''sum'', ''tuple'', ''type'', ''zip'',
        ''Exception'', ''ValueError'', ''TypeError'', ''KeyError'', ''IndexError'',
        ''AttributeError'', ''RuntimeError'']
     @ [(''None'', PyNone), (''True'', PyBool True), (''False'', PyBool False)]"

definition create_safe_globals :: "executor \<Rightarrow> (string \<times> pyval) list" where
  "create_safe_globals self =
     [(''__builtins__'', PyDict safe_builtins),
      (''__name__'', PyStr ''__main__''),
      (''__doc__'', PyNone),
      (''secure_read_file'', PyBoundMethod self ''_secure_read_file''),
      (''secure_write_file'', PyBoundMethod self ''_secure_write_file''),
      (''get_project_root'', PyLambda self ''get_project_root'')]"

definition dict_get :: "(string \<times> pyval) list \<Rightarrow> string \<Rightarrow> pyval \<Rightarrow> pyval" where
  "dict_get d k dflt = (case map_of d k of Some v \<Rightarrow> v | None \<Rightarrow> dflt)"

text \<open>
  During \<^verbatim>\<open>execute\<close> the process state is extended by the three objects the function
  creates: the two capture buffers and the namespace. The Python interpreter is a
  parameter: \<^verbatim>\<open>exec(code, safe_globals)\<close> under the two redirections takes the code text
  and the state, may change all of it (bind names, print, touch files, change or remove
  directories, assign to the guard), and either completes or raises.
\<close>

record exec_state = proc +
  stdout_capture :: string
  stderr_capture :: string
  safe_globals :: "(string \<times> pyval) list"

type_synonym interpreter = "string \<Rightarrow> exec_state \<Rightarrow> pyexc option \<times> exec_state"

definition run_code :: "interpreter \<Rightarrow> string \<Rightarrow> exec_state \<Rightarrow> (pyexc + pyval) \<times> exec_state" where
  "run_code py_exec code s =
     (case py_exec code s of
        (Some e, s') \<Rightarrow> (Inl e, s')
      | (None, s') \<Rightarrow>
          (Inr (dict_get (safe_globals s') ''result'' (dict_get (safe_globals s') ''_'' PyNone)),
           s'))"

definition world_of :: "exec_state \<Rightarrow> world" where
  "world_of s = \<lparr>cwd = cwd s, dirs = dirs s, files = files s\<rparr>"

text \<open>
  The state in which \<^verbatim>\<open>execute\<close> calls \<^verbatim>\<open>self.isolation.sandbox_exec(run_code)\<close>: the
  operating system as it is, the executor's guard, two empty buffers and the namespace
  \<open>create_safe_globals\<close> built.
\<close>

definition initial_state :: "executor \<Rightarrow> world \<Rightarrow> exec_state" where
  "initial_state self w =
     \<lparr>cwd = cwd w, dirs = dirs w, files = files w, guard_obj = isolation self,
      stdout_capture = [], stderr_capture = [],
      safe_globals = create_safe_globals self\<rparr>"

text \<open>
  \<^verbatim>\<open>execute\<close>. The timeout is only logged. \<^verbatim>\<open>except Exception\<close> turns an exception into a
  failed result; an exception outside \<^verbatim>\<open>Exception\<close> leaves the function.
\<close>

definition execute ::
  "interpreter \<Rightarrow> executor \<Rightarrow> string \<Rightarrow> int \<Rightarrow> world \<Rightarrow> (pyexc + ExecutionResult) \<times> world" where
  "execute py_exec self code timeout_ms w =
     (let blocked = check_blocked_imports code in
      if blocked \<noteq> [] then
        (Inr \<lparr>success = False, result = PyNone, output_str = None,
              error = Some (''Blocked import detected: '' @ join_str '', '' blocked)\<rparr>, w)
      else
        (case sandbox_exec (run_code py_exec code) (initial_state self w) of
           (Inr res, s) \<Rightarrow>
             (Inr \<lparr>success = True, result = res,
                   output_str = (if stdout_capture s \<noteq> [] then Some (stdout_capture s) else None),
                   error = (if stderr_capture s \<noteq> [] then Some (stderr_capture s) else None)\<rparr>,
              world_of s)
         | (Inl e, s) \<Rightarrow>
             if is_Exception e then
               (Inr \<lparr>success = False, result = PyNone,
                     output_str = (if stdout_capture s \<noteq> [] then Some (stdout_capture s) else None),
                     error = Some (exc_str e)\<rparr>,
                world_of s)
             else (Inl e, world_of s)))"

subsection \<open>Callbacks and an interpreter to run the definitions on\<close>




text \<open>
  An interpreter that knows three programs and takes every other text for a syntax
  error. The first is \<^verbatim>\<open>result = 2 + 2\<close>. The second is
  \<^verbatim>\<open>result = 'numpy' in secure_read_file.__self__.authorized_imports\<close>:
  it looks up the bound method in the namespace, takes its owner, and binds \<^verbatim>\<open>result\<close> to
  whether the owner's set of authorized imports has \<^verbatim>\<open>numpy\<close>. The third is
  \<^verbatim>\<open>o = secure_read_file.__globals__['sys'].modules['os']; o.rename('/home/dev', '/home/dev.bak'); result = 4\<close>:
  it reaches the module \<^verbatim>\<open>os\<close> through the globals of the bound method's function, renames
  the directory \<^verbatim>\<open>/home/dev\<close>, and binds \<^verbatim>\<open>result\<close> to 4.
\<close>

definition arith_code :: string where
  "arith_code = ''result = 2 + 2''"

definition peek_code :: string where
  "peek_code = ''result = '' @ [CHR 0x27] @ ''numpy'' @ [CHR 0x27] @
               '' in secure_read_file.__self__.authorized_imports''"

definition rename_code :: string where
  "rename_code =
     ''o = secure_read_file.__globals__['' @ [CHR 0x27] @ ''sys'' @ [CHR 0x27] @
     ''].modules['' @ [CHR 0x27] @ ''os'' @ [CHR 0x27] @ '']; o.rename('' @
     [CHR 0x27] @ ''/home/dev'' @ [CHR 0x27] @ '', '' @
     [CHR 0x27] @ ''/home/dev.bak'' @ [CHR 0x27] @ ''); result = 4''"

definition demo_interp :: interpreter where
  "demo_interp code s =
     (if code = arith_code then
        (None, s\<lparr>safe_globals := (''result'', PyInt 4) # safe_globals s\<rparr>)
      else if code = peek_code then
        (case map_of (safe_globals s) ''secure_read_file'' of
           Some (PyBoundMethod owner name) \<Rightarrow>
             (None, s\<lparr>safe_globals :=
                       (''result'', PyBool (''numpy'' \<in> authorized_imports owner))
                       # safe_globals s\<rparr>)
         | _ \<Rightarrow> (Some (PyExc OtherException ''name 'secure_read_file' is not defined''), s))
      else if code = rename_code then
        (case map_of (safe_globals s) ''secure_read_file'' of
           Some (PyBoundMethod owner name) \<Rightarrow>
             (None, s\<lparr>dirs := insert (PPath ''/'' [''home'', ''dev.bak''])
                                (dirs s - {PPath ''/'' [''home'', ''dev'']}),
                      safe_globals := (''result'', PyInt 4) # (''o'', PyObject ''module os'')
                                      # safe_globals s\<rparr>)
         | _ \<Rightarrow> (Some (PyExc OtherException ''name 'secure_read_file' is not defined''), s))
      else (Some (PyExc OtherException ''invalid syntax''), s))"

subsection \<open>Running code that does not look inside the executor object\<close>

text \<open>
  \<open>retarget A\<close> replaces, in every executor object a value carries, the set of
  authorized imports by \<open>A\<close> and changes nothing else. An interpreter is blind to the
  allow-list on a code text when running that text on the retargeted state gives the
  retargeted outcome: the code may pass the injected functions around and call them, but
  nothing it does depends on the set stored in their owner.
\<close>

primrec retarget :: "string set \<Rightarrow> pyval \<Rightarrow> pyval" where
  "retarget A PyNone = PyNone"
| "retarget A (PyBool b) = PyBool b"
| "retarget A (PyInt i) = PyInt i"
| "retarget A (PyStr s) = PyStr s"
| "retarget A (PyBuiltin n) = PyBuiltin n"
| "retarget A (PyDict kvs) = PyDict (map (map_prod id (retarget A)) kvs)"
| "retarget A (PyBoundMethod owner n) = PyBoundMethod (owner\<lparr>authorized_imports := A\<rparr>) n"
| "retarget A (PyLambda owner n) = PyLambda (owner\<lparr>authorized_imports := A\<rparr>) n"
| "retarget A (PyObject d) = PyObject d"

definition retarget_state :: "string set \<Rightarrow> exec_state \<Rightarrow> exec_state" where
  "retarget_state A s = s\<lparr>safe_globals := map (map_prod id (retarget A)) (safe_globals s)\<rparr>"

definition blind_on :: "interpreter \<Rightarrow> string \<Rightarrow> bool" where
  "blind_on py_exec code =
     (\<forall>s A. py_exec code (retarget_state A s) =
              (fst (py_exec code s), retarget_state A (snd (py_exec code s))))"


section \<open>The regular expressions of the scanner\<close>

text \<open>
  \<^verbatim>\<open>re.finditer\<close> for the constructs the scanner's patterns use: literal text, the classes
  \<^verbatim>\<open>.\<close> \<^verbatim>\<open>\w\<close> \<^verbatim>\<open>\s\<close> and \<^verbatim>\<open>[...]\<close>, the greedy repetitions \<^verbatim>\<open>*\<close> \<^verbatim>\<open>+\<close> \<^verbatim>\<open>?\<close> of a class,
  \<^verbatim>\<open>\b\<close>, sequence and ordered alternation, with or without the flag \<^verbatim>\<open>(?i)\<close>. Text is
  a list of 8-bit characters, read as the code points U+0000 to U+00FF; the classes
  \<^verbatim>\<open>\w\<close> and \<^verbatim>\<open>\s\<close> and the lower-casing of \<^verbatim>\<open>(?i)\<close> are those of \<^verbatim>\<open>re\<close> on \<^verbatim>\<open>str\<close> for
  these code points.

  A position in the text is the character before it, if any, and the text after it.
  \<open>ends\<close> lists the positions where a match starting at a position can end, in the order
  the backtracking matcher tries them: the first one is the match \<^verbatim>\<open>re\<close> reports.
\<close>

datatype cset = CAny | CWord | CSpace | COneOf string

datatype regex =
    Lit string
  | Cls cset
  | Star cset
  | Plus cset
  | Opt cset
  | WordB
  | Seq regex regex
  | Alt regex regex

type_synonym pos = "char option \<times> string"

text \<open>
  Lower-casing: the letters A to Z, and U+00C0 to U+00DE without the multiplication sign
  U+00D7, move up by 32. The top bit of a character (\<open>digit7\<close>) tells ASCII from the
  upper half.
\<close>

definition latin1_upper :: string where
  "latin1_upper =
     [CHR 0xC0, CHR 0xC1, CHR 0xC2, CHR 0xC3, CHR 0xC4, CHR 0xC5, CHR 0xC6, CHR 0xC7,
      CHR 0xC8, CHR 0xC9, CHR 0xCA, CHR 0xCB, CHR 0xCC, CHR 0xCD, CHR 0xCE, CHR 0xCF,
      CHR 0xD0, CHR 0xD1, CHR 0xD2, CHR 0xD3, CHR 0xD4, CHR 0xD5, CHR 0xD6, CHR 0xD8,
      CHR 0xD9, CHR 0xDA, CHR 0xDB, CHR 0xDC, CHR 0xDD, CHR 0xDE]"

definition latin1_lower :: string where
  "latin1_lower =
     [CHR 0xE0, CHR 0xE1, CHR 0xE2, CHR 0xE3, CHR 0xE4, CHR 0xE5, CHR 0xE6, CHR 0xE7,
      CHR 0xE8, CHR 0xE9, CHR 0xEA, CHR 0xEB, CHR 0xEC, CHR 0xED, CHR 0xEE, CHR 0xEF,
      CHR 0xF0, CHR 0xF1, CHR 0xF2, CHR 0xF3, CHR 0xF4, CHR 0xF5, CHR 0xF6, CHR 0xF8,
      CHR 0xF9, CHR 0xFA, CHR 0xFB, CHR 0xFC, CHR 0xFD, CHR 0xFE]"

definition to_lower :: "char \<Rightarrow> char" where
  "to_lower c =
     (case (if digit7 c then map_of (zip latin1_upper latin1_lower) c
            else map_of (zip ''ABCDEFGHIJKLMNOPQRSTUVWXYZ'' ''abcdefghijklmnopqrstuvwxyz'') c) of
        Some l \<Rightarrow> l
      | None \<Rightarrow> c)"

text \<open>
  Word characters: ASCII letters, digits and the underscore, and the letters and numeric
  characters among U+0080 to U+00FF. White space: the six ASCII ones, U+001C to U+001F,
  U+0085 and U+00A0.
\<close>

definition latin1_word :: string where
  "latin1_word =
     [CHR 0xAA, CHR 0xB2, CHR 0xB3, CHR 0xB5, CHR 0xB9, CHR 0xBA, CHR 0xBC, CHR 0xBD,
      CHR 0xBE, CHR 0xC0, CHR 0xC1, CHR 0xC2, CHR 0xC3, CHR 0xC4, CHR 0xC5, CHR 0xC6,
      CHR 0xC7, CHR 0xC8, CHR 0xC9, CHR 0xCA, CHR 0xCB, CHR 0xCC, CHR 0xCD, CHR 0xCE,
      CHR 0xCF, CHR 0xD0, CHR 0xD1, CHR 0xD2, CHR 0xD3, CHR 0xD4, CHR 0xD5, CHR 0xD6,
      CHR 0xD8, CHR 0xD9, CHR 0xDA, CHR 0xDB, CHR 0xDC, CHR 0xDD, CHR 0xDE, CHR 0xDF,
      CHR 0xE0, CHR 0xE1, CHR 0xE2, CHR 0xE3, CHR 0xE4, CHR 0xE5, CHR 0xE6, CHR 0xE7,
      CHR 0xE8, CHR 0xE9, CHR 0xEA, CHR 0xEB, CHR 0xEC, CHR 0xED, CHR 0xEE, CHR 0xEF,
      CHR 0xF0, CHR 0xF1, CHR 0xF2, CHR 0xF3, CHR 0xF4, CHR 0xF5, CHR 0xF6, CHR 0xF8,
      CHR 0xF9, CHR 0xFA, CHR 0xFB, CHR 0xFC, CHR 0xFD, CHR 0xFE, CHR 0xFF]"

definition is_word_char :: "char \<Rightarrow> bool" where
  "is_word_char c =
     (if digit7 c then c \<in> set latin1_word
      else c \<in> set ''abcdefghijklmnopqrstuvwxyzABCDEFGHIJKLMNOPQRSTUVWXYZ0123456789_'')"

definition is_space_char :: "char \<Rightarrow> bool" where
  "is_space_char c =
     (c \<in> set [CHR 0x20, CHR 0x09, CHR 0x0A, CHR 0x0B, CHR 0x0C, CHR 0x0D,
                 CHR 0x1C, CHR 0x1D, CHR 0x1E, CHR 0x1F, CHR 0x85, CHR 0xA0])"

definition eq_char :: "bool \<Rightarrow> char \<Rightarrow> char \<Rightarrow> bool" where
  "eq_char ic x c = (if ic then to_lower c = to_lower x else c = x)"

fun in_cset :: "bool \<Rightarrow> cset \<Rightarrow> char \<Rightarrow> bool" where
  "in_cset ic CAny c = (c \<noteq> CHR 0x0A)"
| "in_cset ic CWord c = is_word_char c"
| "in_cset ic CSpace c = is_space_char c"
| "in_cset ic (COneOf xs) c = list_ex (\<lambda>x. eq_char ic x c) xs"

fun step_char :: "(char \<Rightarrow> bool) \<Rightarrow> pos \<Rightarrow> pos list" where
  "step_char P (p, []) = []"
| "step_char P (p, c # cs) = (if P c then [(Some c, cs)] else [])"

fun match_lit :: "bool \<Rightarrow> string \<Rightarrow> pos \<Rightarrow> pos list" where
  "match_lit ic [] q = [q]"
| "match_lit ic (x # xs) (p, []) = []"
| "match_lit ic (x # xs) (p, c # cs) =
     (if eq_char ic x c then match_lit ic xs (Some c, cs) else [])"

fun match_star :: "(char \<Rightarrow> bool) \<Rightarrow> pos \<Rightarrow> pos list" where
  "match_star P (p, []) = [(p, [])]"
| "match_star P (p, c # cs) =
     (if P c then match_star P (Some c, cs) @ [(p, c # cs)] else [(p, c # cs)])"

definition at_boundary :: "pos \<Rightarrow> bool" where
  "at_boundary q =
     ((case fst q of None \<Rightarrow> False | Some c \<Rightarrow> is_word_char c) \<noteq>
      (case snd q of [] \<Rightarrow> False | c # cs \<Rightarrow> is_word_char c))"

fun ends :: "bool \<Rightarrow> regex \<Rightarrow> pos \<Rightarrow> pos list" where
  "ends ic (Lit s) q = match_lit ic s q"
| "ends ic (Cls cs) q = step_char (in_cset ic cs) q"
| "ends ic (Star cs) q = match_star (in_cset ic cs) q"
| "ends ic (Plus cs) q = concat (map (match_star (in_cset ic cs)) (step_char (in_cset ic cs) q))"
| "ends ic (Opt cs) q = step_char (in_cset ic cs) q @ [q]"
| "ends ic WordB q = (if at_boundary q then [q] else [])"
| "ends ic (Seq a b) q = concat (map (ends ic b) (ends ic a q))"
| "ends ic (Alt a b) q = ends ic a q @ ends ic b q"

text \<open>
  The start offsets of the matches \<^verbatim>\<open>finditer\<close> yields, scanning left to right. \<open>skip\<close>
  counts the characters still covered by the previous match. After an empty match the
  same position is tried once more for a match that is not empty; then the scan moves on.
\<close>

fun finditer_from :: "bool \<Rightarrow> regex \<Rightarrow> nat \<Rightarrow> nat \<Rightarrow> char option \<Rightarrow> string \<Rightarrow> nat list" where
  "finditer_from ic r off skip p [] =
     (if skip = 0 \<and> ends ic r (p, []) \<noteq> [] then [off] else [])"
| "finditer_from ic r off skip p (c # cs) =
     (if skip > 0 then finditer_from ic r (off + 1) (skip - 1) (Some c) cs
      else
        (case ends ic r (p, c # cs) of
           [] \<Rightarrow> finditer_from ic r (off + 1) 0 (Some c) cs
         | q # qs \<Rightarrow>
             if length (snd q) < length (c # cs)
             then off # finditer_from ic r (off + 1) (length cs - length (snd q)) (Some c) cs
             else
               (case filter (\<lambda>q'. length (snd q') < length (c # cs)) qs of
                  [] \<Rightarrow> off # finditer_from ic r (off + 1) 0 (Some c) cs
                | q' # _ \<Rightarrow>
                    off # off #
                    finditer_from ic r (off + 1) (length cs - length (snd q')) (Some c) cs)))"

text \<open>A compiled pattern is its \<^verbatim>\<open>(?i)\<close> flag and its expression.\<close>

type_synonym pattern = "bool \<times> regex"

definition re_finditer :: "pattern \<Rightarrow> string \<Rightarrow> nat list" where
  "re_finditer pat text = finditer_from (fst pat) (snd pat) 0 0 None text"

fun seq :: "regex list \<Rightarrow> regex" where
  "seq [] = Lit []"
| "seq [r] = r"
| "seq (r # rs) = Seq r (seq rs)"

definition quotes :: cset where
  "quotes = COneOf [CHR 0x27, CHR 0x22]"

section \<open>owasp\_validator.py: OWASPValidator\<close>

datatype severity = Critical | High | Medium | Low | Info

record Vulnerability =
  id_v :: string
  category :: string
  severity :: severity
  title :: string
  description :: string
  location :: "string option"
  remediation :: "string option"

record ValidationResult =
  valid :: bool
  vulnerabilities :: "Vulnerability list"
  compliance_score :: real

text \<open>
  The five pattern tables. Each entry is the pattern of the source, written as an
  expression, and its description; the source's text of the pattern is in the comment.
\<close>

definition SQL_PATTERNS :: "(pattern \<times> string) list" where
  \<open>SQL_PATTERNS =
   [\<comment> \<open>\<^verbatim>\<open>(?i)\bSELECT\b.*\bFROM\b.*\bWHERE\b.*=\s*['\"]?\s*\+\<close>\<close>
    ((True, seq [WordB, Lit ''SELECT'', WordB, Star CAny, WordB, Lit ''FROM'', WordB,
                 Star CAny, WordB, Lit ''WHERE'', WordB, Star CAny, Lit ''='', Star CSpace,
                 Opt quotes, Star CSpace, Lit ''+'']),
     ''SQL concatenation''),
    \<comment> \<open>\<^verbatim>\<open>(?i)\bINSERT\b.*\bINTO\b.*\bVALUES\b.*\+\<close>\<close>
    ((True, seq [WordB, Lit ''INSERT'', WordB, Star CAny, WordB, Lit ''INTO'', WordB,
                 Star CAny, WordB, Lit ''VALUES'', WordB, Star CAny, Lit ''+'']),
     ''SQL INSERT concatenation''),
    \<comment> \<open>\<^verbatim>\<open>(?i)\bUPDATE\b.*\bSET\b.*=.*\+\<close>\<close>
    ((True, seq [WordB, Lit ''UPDATE'', WordB, Star CAny, WordB, Lit ''SET'', WordB,
                 Star CAny, Lit ''='', Star CAny, Lit ''+'']),
     ''SQL UPDATE concatenation''),
    \<comment> \<open>\<^verbatim>\<open>(?i)\bDELETE\b.*\bFROM\b.*\bWHERE\b.*\+\<close>\<close>
    ((True, seq [WordB, Lit ''DELETE'', WordB, Star CAny, WordB, Lit ''FROM'', WordB,
                 Star CAny, WordB, Lit ''WHERE'', WordB, Star CAny, Lit ''+'']),
     ''SQL DELETE concatenation''),
    \<comment> \<open>\<^verbatim>\<open>(?i)execute\s*\(\s*['\"].*\+\<close>\<close>
    ((True, seq [Lit ''execute'', Star CSpace, Lit ''('', Star CSpace, Cls quotes,
                 Star CAny, Lit ''+'']),
     ''Dynamic SQL execution''),
    \<comment> \<open>\<^verbatim>\<open>(?i)f['\"].*\{.*\}.*SELECT\<close>\<close>
    ((True, seq [Lit ''f'', Cls quotes, Star CAny, Lit ''{'', Star CAny, Lit ''}'',
                 Star CAny, Lit ''SELECT'']),
     ''F-string SQL query''),
    \<comment> \<open>\<^verbatim>\<open>(?i)f['\"].*\{.*\}.*INSERT\<close>\<close>
    ((True, seq [Lit ''f'', Cls quotes, Star CAny, Lit ''{'', Star CAny, Lit ''}'',
                 Star CAny, Lit ''INSERT'']),
     ''F-string SQL query''),
    \<comment> \<open>\<^verbatim>\<open>(?i)f['\"].*\{.*\}.*UPDATE\<close>\<close>
    ((True, seq [Lit ''f'', Cls quotes, Star CAny, Lit ''{'', Star CAny, Lit ''}'',
                 Star CAny, Lit ''UPDATE'']),
     ''F-string SQL query''),
    \<comment> \<open>\<^verbatim>\<open>(?i)f['\"].*\{.*\}.*DELETE\<close>\<close>
    ((True, seq [Lit ''f'', Cls quotes, Star CAny, Lit ''{'', Star CAny, Lit ''}'',
                 Star CAny, Lit ''DELETE'']),
     ''F-string SQL query'')]\<close>

definition XSS_PATTERNS :: "(pattern \<times> string) list" where
  \<open>XSS_PATTERNS =
   [\<comment> \<open>\<^verbatim>\<open>(?i)innerHTML\s*=\<close>\<close>
    ((True, seq [Lit ''innerHTML'', Star CSpace, Lit ''='']),
     ''Direct innerHTML assignment''),
    \<comment> \<open>\<^verbatim>\<open>(?i)document\.write\s*\(\<close>\<close>
    ((True, seq [Lit ''document.write'', Star CSpace, Lit ''('']),
     ''document.write usage''),
    \<comment> \<open>\<^verbatim>\<open>(?i)eval\s*\(\<close>\<close>
    ((True, seq [Lit ''eval'', Star CSpace, Lit ''('']),
     ''eval() usage''),
    \<comment> \<open>\<^verbatim>\<open><script.*>.*</script>\<close>\<close>
    ((False, seq [Lit ''<script'', Star CAny, Lit ''>'', Star CAny, Lit ''</script>'']),
     ''Inline script tag''),
    \<comment> \<open>\<^verbatim>\<open>(?i)on\w+\s*=\s*['\"]\<close>\<close>
    ((True, seq [Lit ''on'', Plus CWord, Star CSpace, Lit ''='', Star CSpace, Cls quotes]),
     ''Inline event handler'')]\<close>

definition CMD_PATTERNS :: "(pattern \<times> string) list" where
  \<open>CMD_PATTERNS =
   [\<comment> \<open>\<^verbatim>\<open>(?i)os\.system\s*\(.*\+\<close>\<close>
    ((True, seq [Lit ''os.system'', Star CSpace, Lit ''('', Star CAny, Lit ''+'']),
     ''os.system with concatenation''),
    \<comment> \<open>\<^verbatim>\<open>(?i)subprocess\.(?:run|call|Popen)\s*\(.*\+\<close>\<close>
    ((True, seq [Lit ''subprocess.'', Alt (Lit ''run'') (Alt (Lit ''call'') (Lit ''Popen'')),
                 Star CSpace, Lit ''('', Star CAny, Lit ''+'']),
     ''subprocess with concatenation''),
    \<comment> \<open>\<^verbatim>\<open>(?i)exec\s*\(.*\+\<close>\<close>
    ((True, seq [Lit ''exec'', Star CSpace, Lit ''('', Star CAny, Lit ''+'']),
     ''exec with concatenation''),
    \<comment> \<open>\<^verbatim>\<open>(?i)shell\s*=\s*True\<close>\<close>
    ((True, seq [Lit ''shell'', Star CSpace, Lit ''='', Star CSpace, Lit ''True'']),
     ''shell=True in subprocess''),
    \<comment> \<open>\<^verbatim>\<open>(?i)os\.popen\s*\(\<close>\<close>
    ((True, seq [Lit ''os.popen'', Star CSpace, Lit ''('']),
     ''os.popen usage'')]\<close>

definition PATH_PATTERNS :: "(pattern \<times> string) list" where
  \<open>PATH_PATTERNS =
   [\<comment> \<open>\<^verbatim>\<open>\.\./\<close>\<close>
    ((False, Lit ''../''), ''Parent directory traversal''),
    \<comment> \<open>\<^verbatim>\<open>\.\.\\\\\<close>: two dots and two backslashes\<close>
    ((False, Lit (''..'' @ [CHR 0x5C, CHR 0x5C])), ''Windows parent directory traversal''),
    \<comment> \<open>\<^verbatim>\<open>(?i)/etc/passwd\<close>\<close>
    ((True, Lit ''/etc/passwd''), ''Access to /etc/passwd''),
    \<comment> \<open>\<^verbatim>\<open>(?i)/etc/shadow\<close>\<close>
    ((True, Lit ''/etc/shadow''), ''Access to /etc/shadow''),
    \<comment> \<open>\<^verbatim>\<open>(?i)C:\\\\Windows\<close>: two backslashes\<close>
    ((True, Lit (''C:'' @ [CHR 0x5C, CHR 0x5C] @ ''Windows'')), ''Windows system directory'')]\<close>

definition SSRF_PATTERNS :: "(pattern \<times> string) list" where
  \<open>SSRF_PATTERNS =
   [\<comment> \<open>\<^verbatim>\<open>(?i)requests\.(?:get|post|put|delete)\s*\(.*\+\<close>\<close>
    ((True, seq [Lit ''requests.'',
                 Alt (Lit ''get'') (Alt (Lit ''post'') (Alt (Lit ''put'') (Lit ''delete''))),
                 Star CSpace, Lit ''('', Star CAny, Lit ''+'']),
     ''HTTP request with concatenation''),
    \<comment> \<open>\<^verbatim>\<open>(?i)urllib\.request\.urlopen\s*\(.*\+\<close>\<close>
    ((True, seq [Lit ''urllib.request.urlopen'', Star CSpace, Lit ''('', Star CAny, Lit ''+'']),
     ''urlopen with concatenation''),
    \<comment> \<open>\<^verbatim>\<open>(?i)http\.client\<close>\<close>
    ((True, Lit ''http.client''), ''http.client usage''),
    \<comment> \<open>\<^verbatim>\<open>(?i)127\.0\.0\.1|localhost\<close>\<close>
    ((True, Alt (Lit ''127.0.0.1'') (Lit ''localhost'')), ''Localhost access''),
    \<comment> \<open>\<^verbatim>\<open>(?i)169\.254\.\<close>\<close>
    ((True, Lit ''169.254.''), ''AWS metadata IP'')]\<close>

definition patterns :: "(string \<times> (pattern \<times> string) list) list" where
  "patterns =
     [(''A03:2021-Injection-SQL'', SQL_PATTERNS),
      (''A03:2021-Injection-XSS'', XSS_PATTERNS),
      (''A03:2021-Injection-CMD'', CMD_PATTERNS),
      (''A01:2021-Broken Access Control'', PATH_PATTERNS),
      (''A10:2021-SSRF'', SSRF_PATTERNS)]"

definition get_severity :: "string \<Rightarrow> severity" where
  "get_severity cat =
     (if sublist ''Injection'' cat then Critical
      else if sublist ''Access Control'' cat then High
      else if sublist ''SSRF'' cat then High
      else Medium)"

definition get_remediation :: "string \<Rightarrow> string" where
  "get_remediation cat =
     (case map_of
        [(''A03:2021-Injection-SQL'',
          ''Use parameterized queries or ORM instead of string concatenation''),
         (''A03:2021-Injection-XSS'', ''Sanitize user input and use Content Security Policy''),
         (''A03:2021-Injection-CMD'', ''Avoid shell=True and use array-based subprocess calls''),
         (''A01:2021-Broken Access Control'',
          ''Validate and sanitize all file paths, use allowlists''),
         (''A10:2021-SSRF'', ''Validate URLs against allowlist, block internal IPs'')] cat of
        Some r \<Rightarrow> r
      | None \<Rightarrow> ''Review and fix the identified vulnerability'')"

text \<open>\<^verbatim>\<open>str(n)\<close> and the format \<^verbatim>\<open>{n:04d}\<close> for a natural number.\<close>

fun str_nat :: "nat \<Rightarrow> string" where
  "str_nat n =
     (if n < 10 then [''0123456789'' ! n]
      else str_nat (n div 10) @ [''0123456789'' ! (n mod 10)])"

definition format_04d :: "nat \<Rightarrow> string" where
  "format_04d n = replicate (4 - length (str_nat n)) CHR ''0'' @ str_nat n"

text \<open>
  The three nested loops of \<^verbatim>\<open>validate\<close> thread the counter \<^verbatim>\<open>vuln_id\<close> and the list
  built so far: one step per match, per pattern, per category.
\<close>

definition add_match ::
  "string \<Rightarrow> string \<Rightarrow> string \<Rightarrow> nat \<Rightarrow> nat \<times> Vulnerability list \<Rightarrow> nat \<times> Vulnerability list"
where
  "add_match code cat desc match_start st =
     (let vuln_id = fst st + 1;
          line_num = count_list (take match_start code) (CHR 0x0A) + 1
      in (vuln_id,
          snd st @
          [\<lparr>id_v = ''OWASP-'' @ format_04d vuln_id,
            category = cat,
            severity = get_severity cat,
            title = desc,
            description = ''Potential '' @ desc @ '' vulnerability detected'',
            location = Some (''Line '' @ str_nat line_num),
            remediation = Some (get_remediation cat)\<rparr>]))"

definition scan_pattern ::
  "string \<Rightarrow> string \<Rightarrow> pattern \<times> string \<Rightarrow> nat \<times> Vulnerability list \<Rightarrow> nat \<times> Vulnerability list"
where
  "scan_pattern code cat pd st =
     fold (add_match code cat (snd pd)) (re_finditer (fst pd) code) st"

definition scan_category ::
  "string \<Rightarrow> string \<times> (pattern \<times> string) list \<Rightarrow> nat \<times> Vulnerability list
     \<Rightarrow> nat \<times> Vulnerability list"
where
  "scan_category code cp st = fold (scan_pattern code (fst cp)) (snd cp) st"

definition validate :: "string \<Rightarrow> ValidationResult" where
  "validate code =
     (let vulns = snd (fold (scan_category code) patterns (0, []));
          critical_count = length (filter (\<lambda>v. severity v = Critical) vulns);
          high_count = length (filter (\<lambda>v. severity v = High) vulns);
          medium_count = length (filter (\<lambda>v. severity v = Medium) vulns);
          score = 100 - real (critical_count * 25) - real (high_count * 15)
                      - real (medium_count * 5)
      in \<lparr>valid = (length (filter (\<lambda>v. severity v \<in> {Critical, High}) vulns) = 0),
          vulnerabilities = vulns,
          compliance_score = max 0 score\<rparr>)"

definition sql_example :: string where
  "sql_example = ''query = '' @ [CHR 0x22] @ ''SELECT * FROM users WHERE id='' @ [CHR 0x27] @
                 '' + user_id''"

section \<open>Properties of the boundary guard\<close>

lemma prefix_iff_take: "prefix xs ys \<longleftrightarrow> (\<exists>k\<le>length ys. xs = take k ys)"
proof
  assume "prefix xs ys"
  then obtain zs where "ys = xs @ zs" by (auto simp: prefix_def)
  then have "xs = take (length xs) ys" "length xs \<le> length ys" by simp_all
  then show "\<exists>k\<le>length ys. xs = take k ys" by blast
next
  assume "\<exists>k\<le>length ys. xs = take k ys"
  then show "prefix xs ys" by (auto simp: take_is_prefix)
qed

text \<open>
  pathlib's test (equal to the other path, or the other path among the parents) is the
  containment the specification speaks of.
\<close>

lemma is_relative_to_iff:
  "is_relative_to p other \<longleftrightarrow> descendant_or_equal p other"
proof -
  obtain r ns where p: "p = PPath r ns" by (cases p)
  obtain r' ns' where o: "other = PPath r' ns'" by (cases other)
  have 1: "(ns' = ns \<or> (\<exists>k<length ns. ns' = take k ns)) \<longleftrightarrow> (\<exists>k\<le>length ns. ns' = take k ns)"
    by (metis le_eq_less_or_eq order_refl take_all)
  have 2: "is_relative_to p other \<longleftrightarrow> r' = r \<and> (ns' = ns \<or> (\<exists>k<length ns. ns' = take k ns))"
    unfolding is_relative_to_def parents_def p o by (auto simp: image_iff)
  have 3: "descendant_or_equal p other \<longleftrightarrow> r' = r \<and> (\<exists>k\<le>length ns. ns' = take k ns)"
    unfolding descendant_or_equal_def p o by (auto simp: prefix_iff_take)
  show ?thesis unfolding 2 3 1 ..
qed

text \<open>
  Claim C1. For every path string \<open>p\<close>, \<open>validate_path\<close> succeeds with \<open>t\<close> exactly when
  the canonical form of \<open>p\<close> (resolved directly when absolute, joined to the project root
  and then resolved when relative) is \<open>t\<close> and \<open>t\<close> is the root or a descendant of it; so
  a success returns the canonical path. When the canonical form escapes the root, the call
  fails with \<^verbatim>\<open>PermissionError\<close>.
\<close>

theorem validate_path_canonical_containment:
  "(validate_path fs guard p = Inr t \<longleftrightarrow>
      canonical_form fs guard p = Inr t \<and> descendant_or_equal t (project_root guard)) \<and>
   (canonical_form fs guard p = Inr t \<and> \<not> descendant_or_equal t (project_root guard) \<longrightarrow>
      validate_path fs guard p = Inl (PyExc PermissionError (''Path traversal detected: '' @ p)))"
  by (auto simp: validate_path_def canonical_form_def is_absolute_def is_relative_to_iff
           split: sum.splits if_splits)

text \<open>
  On the small file system: a \<^verbatim>\<open>..\<close> that stays inside is accepted and returned in
  canonical form; a symbolic link inside the root that points outside is rejected.
\<close>

theorem validate_path_canonical_containment_witness:
  "validate_path demo_fs demo_guard ''docs/../src/main.py'' =
     Inr (PPath ''/'' [''srv'', ''proj'', ''src'', ''main.py'']) \<and>
   validate_path demo_fs demo_guard ''out/secret'' =
     Inl (PyExc PermissionError ''Path traversal detected: out/secret'')"
proof -
  let ?t = "PPath ''/'' [''srv'', ''proj'', ''src'', ''main.py'']"
  let ?u = "PPath ''/'' [''tmp'', ''elsewhere'', ''secret'']"
  have a: "canonical_form demo_fs demo_guard ''docs/../src/main.py'' = Inr ?t"
    by (simp add: canonical_form_def demo_fs_def demo_guard_def posix_resolve_def Path_def
        splitroot_def joinpath_def)
  have b: "descendant_or_equal ?t (project_root demo_guard)"
    by (simp add: descendant_or_equal_def demo_guard_def)
  have c: "canonical_form demo_fs demo_guard ''out/secret'' = Inr ?u"
    by (simp add: canonical_form_def demo_fs_def demo_guard_def posix_resolve_def Path_def
        splitroot_def joinpath_def)
  have d: "\<not> descendant_or_equal ?u (project_root demo_guard)"
    by (simp add: descendant_or_equal_def demo_guard_def)
  from validate_path_canonical_containment [of demo_fs demo_guard "''docs/../src/main.py''" ?t]
    validate_path_canonical_containment [of demo_fs demo_guard "''out/secret''" ?u] a b c d
  show ?thesis by simp
qed

subsection \<open>is\_safe\_path\<close>

text \<open>
  Whenever \<open>is_safe_path\<close> returns, its answer is whether \<open>validate_path\<close> succeeds; it
  returns \<open>False\<close> only for \<^verbatim>\<open>PermissionError\<close> and lets every other exception through.
\<close>

lemma is_safe_path_when_it_returns:
  "is_safe_path fs guard p = Inr b \<Longrightarrow> b = (\<exists>t. validate_path fs guard p = Inr t)"
  by (auto simp: is_safe_path_def split: sum.splits if_splits)

lemma is_safe_path_raises_iff:
  "is_safe_path fs guard p = Inl e \<longleftrightarrow>
     validate_path fs guard p = Inl e \<and> \<not> is_PermissionError e"
  by (auto simp: is_safe_path_def split: sum.splits if_splits)

text \<open>
  Claim C6 says that \<open>is_safe_path\<close> never fails. On a path with an embedded NUL
  character \<^verbatim>\<open>resolve\<close> raises \<^verbatim>\<open>ValueError\<close>; \<open>validate_path\<close> re-raises it and
  \<open>is_safe_path\<close>, which catches \<^verbatim>\<open>PermissionError\<close> only, raises it too.
\<close>

theorem is_safe_path_raises_on_embedded_nul:
  "validate_path demo_fs demo_guard [CHR 0x00] = Inl (PyExc ValueError ''embedded null byte'') \<and>
   is_safe_path demo_fs demo_guard [CHR 0x00] = Inl (PyExc ValueError ''embedded null byte'')"
  by (simp add: is_safe_path_def validate_path_def is_absolute_def is_PermissionError_def
      demo_fs_def demo_guard_def posix_resolve_def Path_def splitroot_def joinpath_def)

subsection \<open>get\_relative\_path\<close>

lemma split_sep_plain: "CHR ''/'' \<notin> set x \<Longrightarrow> split_sep x = [x]"
  by (induction x) auto

lemma split_sep_append:
  "CHR ''/'' \<notin> set x \<Longrightarrow> split_sep (x @ CHR ''/'' # rest) = x # split_sep rest"
  by (induction x) (auto split: list.splits)

lemma split_sep_join:
  "\<forall>n \<in> set (x # xs). CHR ''/'' \<notin> set n \<Longrightarrow> split_sep (join_str ''/'' (x # xs)) = x # xs"
proof (induction xs arbitrary: x)
  case Nil
  then show ?case by (simp add: split_sep_plain)
next
  case (Cons y ys)
  then show ?case by (simp add: split_sep_append)
qed

text \<open>Printing a relative path of proper names and parsing it again gives the path back.\<close>

lemma Path_str_relative:
  assumes "\<forall>n \<in> set ns. n \<noteq> [] \<and> n \<noteq> ''.'' \<and> CHR ''/'' \<notin> set n"
  shows "Path (str_path (PPath [] ns)) = PPath [] ns"
proof (cases ns)
  case Nil
  then show ?thesis by (simp add: str_path_def Path_def splitroot_def)
next
  case (Cons x xs)
  with assms have x: "x \<noteq> []" "hd x \<noteq> CHR ''/''" by (auto simp: neq_Nil_conv)
  have j: "join_str ''/'' (x # xs) \<noteq> []" "hd (join_str ''/'' (x # xs)) = hd x"
    using x by (cases xs; simp)+
  have s: "split_sep (join_str ''/'' (x # xs)) = x # xs"
    using assms Cons by (intro split_sep_join) auto
  have f: "filter (\<lambda>x. x \<noteq> [] \<and> x \<noteq> ''.'') (x # xs) = x # xs"
    using assms Cons by (intro filter_True) auto
  show ?thesis
    using j x s f by (simp add: Cons str_path_def Path_def splitroot_def Let_def)
qed

text \<open>
  Where canonicalization is idempotent, the root a constructor stored and every path
  \<open>validate_path\<close> returns are fixed points of \<open>resolve\<close>.
\<close>

lemma init_root_is_canonical:
  assumes "ProjectIsolation fs root_str audit = Inr guard" and "idempotent_resolve fs"
  shows "resolve fs (project_root guard) = Inr (project_root guard)"
  using assms
  by (auto simp: ProjectIsolation_def idempotent_resolve_def split: sum.splits if_splits)

lemma validated_path_is_canonical:
  assumes "validate_path fs guard p = Inr t" and "idempotent_resolve fs"
  shows "resolve fs t = Inr t"
  using assms
  by (auto simp: validate_path_def idempotent_resolve_def split: sum.splits if_splits)

text \<open>
  Claim C7 (round trip). For an in-bound path \<open>p\<close>, joining the project root with
  \<open>get_relative_path p\<close> and canonicalizing yields the path \<open>validate_path p\<close> returns.
  The file system enters through two facts about the canonical path \<open>t\<close> it returned:
  canonicalizing \<open>t\<close> again gives \<open>t\<close>, and the names of \<open>t\<close> are proper file names
  (not empty, not \<^verbatim>\<open>.\<close>, without a slash).
\<close>

theorem relative_path_round_trip:
  assumes v: "validate_path fs guard p = Inr t"
      and canon: "resolve fs t = Inr t"
      and wf: "\<forall>n \<in> set (pp_names t). n \<noteq> [] \<and> n \<noteq> ''.'' \<and> CHR ''/'' \<notin> set n"
  shows "\<exists>rel. get_relative_path fs guard p = Inr rel \<and>
               resolve fs (joinpath (project_root guard) rel) = validate_path fs guard p"
proof -
  from v have rel: "is_relative_to t (project_root guard)"
    by (auto simp: validate_path_def split: sum.splits if_splits)
  then have d: "descendant_or_equal t (project_root guard)" by (simp add: is_relative_to_iff)
  define suffix where "suffix = drop (length (pp_names (project_root guard))) (pp_names t)"
  from d have t: "t = PPath (pp_root (project_root guard)) (pp_names (project_root guard) @ suffix)"
    by (cases t) (auto simp: descendant_or_equal_def prefix_def suffix_def)
  have "set suffix \<subseteq> set (pp_names t)" by (simp add: suffix_def set_drop_subset)
  with wf have "\<forall>n \<in> set suffix. n \<noteq> [] \<and> n \<noteq> ''.'' \<and> CHR ''/'' \<notin> set n" by blast
  then have P: "Path (str_path (PPath [] suffix)) = PPath [] suffix" by (rule Path_str_relative)
  have g: "get_relative_path fs guard p = Inr (str_path (PPath [] suffix))"
    using v rel by (simp add: get_relative_path_def relative_to_def suffix_def)
  have "joinpath (project_root guard) (str_path (PPath [] suffix)) = t"
    using t by (simp add: joinpath_def P)
  with g canon v show ?thesis by simp
qed

theorem relative_path_round_trip_witness:
  "get_relative_path demo_fs demo_guard ''docs/../src/main.py'' = Inr ''src/main.py'' \<and>
   (\<exists>rel. get_relative_path demo_fs demo_guard ''docs/../src/main.py'' = Inr rel \<and>
       resolve demo_fs (joinpath (project_root demo_guard) rel) =
       validate_path demo_fs demo_guard ''docs/../src/main.py'')"
proof -
  let ?t = "PPath ''/'' [''srv'', ''proj'', ''src'', ''main.py'']"
  have v: "validate_path demo_fs demo_guard ''docs/../src/main.py'' = Inr ?t"
    by (simp add: validate_path_def is_absolute_def is_relative_to_iff descendant_or_equal_def
        demo_fs_def demo_guard_def posix_resolve_def Path_def splitroot_def joinpath_def)
  have f: "resolve demo_fs ?t = Inr ?t"
    by (simp add: demo_fs_def posix_resolve_def)
  have w: "\<forall>n \<in> set (pp_names ?t). n \<noteq> [] \<and> n \<noteq> ''.'' \<and> CHR ''/'' \<notin> set n"
    by simp
  have g: "get_relative_path demo_fs demo_guard ''docs/../src/main.py'' = Inr ''src/main.py''"
    using v by (simp add: get_relative_path_def relative_to_def is_relative_to_iff
        descendant_or_equal_def demo_guard_def str_path_def)
  from relative_path_round_trip [OF v f w] g show ?thesis by simp
qed

text \<open>
  Claim C10. Validating the empty path string succeeds and returns the project root
  itself: the root counts as inside. The stored root is canonical, as the constructor left
  it: resolving it again gives the same path.
\<close>

theorem validate_empty_path_is_root:
  assumes "resolve fs (project_root guard) = Inr (project_root guard)"
  shows "validate_path fs guard [] = Inr (project_root guard)"
  using assms
  by (simp add: validate_path_def Path_def splitroot_def is_absolute_def joinpath_def
      is_relative_to_def)

theorem validate_empty_path_is_root_witness:
  "validate_path demo_fs demo_guard [] = Inr (PPath ''/'' [''srv'', ''proj''])"
proof -
  have h: "resolve demo_fs (project_root demo_guard) = Inr (project_root demo_guard)"
    by (simp add: demo_fs_def demo_guard_def posix_resolve_def)
  from validate_empty_path_is_root [OF h] show ?thesis by (simp add: demo_guard_def)
qed


subsection \<open>sandbox\_exec\<close>









section \<open>Properties of the executor\<close>

lemma sublist_prepend: "sublist xs ys \<Longrightarrow> sublist xs (ps @ ys)"
  unfolding sublist_def by (metis append.assoc)

lemma sublist_join_str: "y \<in> set ys \<Longrightarrow> sublist y (join_str sep ys)"
proof (induction sep ys rule: join_str.induct)
  case (3 sep a b bs)
  show ?case
  proof (cases "y = a")
    case True
    then show ?thesis by simp
  next
    case False
    with 3 have "sublist y (join_str sep (b # bs))" by simp
    then have "sublist y ((a @ sep) @ join_str sep (b # bs))" by (rule sublist_prepend)
    then show ?thesis by simp
  qed
qed auto

lemma check_blocked_imports_iff:
  "X \<in> set (check_blocked_imports code) \<longleftrightarrow>
     X \<in> set BLOCKED_IMPORTS \<and>
     (sublist (''import '' @ X) code \<or> sublist (''from '' @ X) code \<or>
      sublist (''__import__('' @ [CHR 0x27] @ X @ [CHR 0x27]) code \<or>
      sublist (''__import__('' @ [CHR 0x22] @ X @ [CHR 0x22]) code)"
  by (auto simp: check_blocked_imports_def import_patterns_def)

text \<open>
  Claim C3. If the source text contains, for a module \<open>X\<close> of the deny list, one of
  \<^verbatim>\<open>import X\<close>, \<^verbatim>\<open>from X\<close>, \<^verbatim>\<open>__import__('X'\<close> or \<^verbatim>\<open>__import__("X"\<close>, then \<open>execute\<close>
  returns at once: \<open>success\<close> is false, result and output are absent, the error message
  names \<open>X\<close> and every other blocked module found, and the process state is returned
  untouched whatever the interpreter is (the code is never run, no namespace is built).
\<close>

theorem execute_blocked_import:
  assumes "X \<in> set BLOCKED_IMPORTS"
      and "sublist (''import '' @ X) code \<or> sublist (''from '' @ X) code \<or>
           sublist (''__import__('' @ [CHR 0x27] @ X @ [CHR 0x27]) code \<or>
           sublist (''__import__('' @ [CHR 0x22] @ X @ [CHR 0x22]) code"
  shows "execute py_exec self code timeout_ms w =
           (Inr \<lparr>success = False, result = PyNone, output_str = None,
                 error = Some (''Blocked import detected: '' @
                               join_str '', '' (check_blocked_imports code))\<rparr>, w) \<and>
         X \<in> set (check_blocked_imports code) \<and>
         (\<forall>Y \<in> set (check_blocked_imports code).
            sublist Y (''Blocked import detected: '' @
                       join_str '', '' (check_blocked_imports code)))"
proof -
  from assms have X: "X \<in> set (check_blocked_imports code)"
    by (simp add: check_blocked_imports_iff)
  then have ne: "check_blocked_imports code \<noteq> []" by auto
  let ?msg = "''Blocked import detected: '' @ join_str '', '' (check_blocked_imports code)"
  have e: "execute py_exec self code timeout_ms w =
      (Inr \<lparr>success = False, result = PyNone, output_str = None, error = Some ?msg\<rparr>, w)"
    using ne by (simp add: execute_def Let_def)
  have n: "\<forall>Y \<in> set (check_blocked_imports code). sublist Y ?msg"
  proof
    fix Y assume "Y \<in> set (check_blocked_imports code)"
    then have "sublist Y (join_str '', '' (check_blocked_imports code))"
      by (rule sublist_join_str)
    then show "sublist Y ?msg" by (rule sublist_prepend)
  qed
  from X e n show ?thesis by blast
qed

lemma check_blocked_import_subprocess:
  "check_blocked_imports ''import subprocess'' = [''subprocess'']"
  by (simp add: check_blocked_imports_def BLOCKED_IMPORTS_def import_patterns_def
      sublist_code prefix_code)

theorem execute_blocked_import_witness:
  "execute demo_interp (SecurePythonExecutor demo_guard None) ''import subprocess''
      60000 demo_world =
     (Inr \<lparr>success = False, result = PyNone, output_str = None,
           error = Some ''Blocked import detected: subprocess''\<rparr>, demo_world)"
proof -
  have a: "''subprocess'' \<in> set BLOCKED_IMPORTS" by (simp add: BLOCKED_IMPORTS_def)
  have b: "sublist (''import '' @ ''subprocess'') ''import subprocess'' \<or>
           sublist (''from '' @ ''subprocess'') ''import subprocess'' \<or>
           sublist (''__import__('' @ [CHR 0x27] @ ''subprocess'' @ [CHR 0x27]) ''import subprocess'' \<or>
           sublist (''__import__('' @ [CHR 0x22] @ ''subprocess'' @ [CHR 0x22]) ''import subprocess''"
    by simp
  from execute_blocked_import [OF a b, of demo_interp
      "SecurePythonExecutor demo_guard None" 60000 demo_world]
  show ?thesis by (simp add: check_blocked_import_subprocess)
qed




lemma codes_distinct:
  "peek_code \<noteq> arith_code" "rename_code \<noteq> arith_code" "rename_code \<noteq> peek_code"
  by (simp_all add: peek_code_def arith_code_def rename_code_def)






subsection \<open>The allow-list\<close>



lemma dict_get_retarget:
  "dict_get (map (map_prod id (retarget A)) d) k (retarget A dflt) = retarget A (dict_get d k dflt)"
  by (induction d) (auto simp: dict_get_def)

lemma run_code_retarget:
  assumes "blind_on py_exec code"
  shows "run_code py_exec code (retarget_state A s) =
           (map_sum id (retarget A) (fst (run_code py_exec code s)),
            retarget_state A (snd (run_code py_exec code s)))"
proof -
  obtain x s' where p: "py_exec code s = (x, s')" by (cases "py_exec code s")
  with assms have q: "py_exec code (retarget_state A s) = (x, retarget_state A s')"
    by (simp add: blind_on_def)
  have g: "safe_globals (retarget_state A s') = map (map_prod id (retarget A)) (safe_globals s')"
    by (simp add: retarget_state_def)
  show ?thesis
  proof (cases x)
    case None
    have "dict_get (safe_globals (retarget_state A s')) ''result''
            (dict_get (safe_globals (retarget_state A s')) ''_'' PyNone) =
          retarget A (dict_get (safe_globals s') ''result'' (dict_get (safe_globals s') ''_'' PyNone))"
      unfolding g using dict_get_retarget [of A "safe_globals s'" "''_''" PyNone]
        dict_get_retarget [of A "safe_globals s'" "''result''" "dict_get (safe_globals s') ''_'' PyNone"]
      by simp
    with None p q show ?thesis by (simp add: run_code_def)
  next
    case (Some e)
    with p q show ?thesis by (simp add: run_code_def)
  qed
qed






lemma demo_interp_not_blind_on_peek: "\<not> blind_on demo_interp peek_code"
proof
  assume b: "blind_on demo_interp peek_code"
  let ?s = "initial_state (SecurePythonExecutor demo_guard None) demo_world"
  from b have "fst (run_code demo_interp peek_code (retarget_state {''numpy''} ?s)) =
      map_sum id (retarget {''numpy''}) (fst (run_code demo_interp peek_code ?s))"
    by (simp add: run_code_retarget)
  then show False
    by (simp add: run_code_def demo_interp_def codes_distinct retarget_state_def
        initial_state_def create_safe_globals_def dict_get_def SecurePythonExecutor_def
        DEFAULT_AUTHORIZED_IMPORTS_def)
qed


section \<open>Properties of the scanner\<close>

text \<open>
  Claim C2. For every source text the result of \<open>validate\<close> satisfies: \<open>valid\<close> is true
  exactly when no vulnerability in the list has severity critical or high, and the
  compliance score is \<open>max 0 (100 - 25 c - 15 h - 5 m)\<close> for the numbers \<open>c\<close>, \<open>h\<close>, \<open>m\<close> of
  critical, high and medium vulnerabilities in the list. The score is a real number here;
  the source computes it in floating point, where every value involved is an integer and
  exact.
\<close>

theorem validate_invariant:
  "valid (validate code) =
     (\<forall>v \<in> set (vulnerabilities (validate code)). severity v \<noteq> Critical \<and> severity v \<noteq> High) \<and>
   compliance_score (validate code) =
     max 0 (100 - 25 * real (length (filter (\<lambda>v. severity v = Critical) (vulnerabilities (validate code))))
                - 15 * real (length (filter (\<lambda>v. severity v = High) (vulnerabilities (validate code))))
                - 5 * real (length (filter (\<lambda>v. severity v = Medium) (vulnerabilities (validate code)))))"
  by (simp add: validate_def Let_def filter_empty_conv)

lemma scan_clean_example:
  "fold (scan_category ''x = 1 + 2'') patterns (0, []) = (0, [])"
  by code_simp

text \<open>The text \<^verbatim>\<open>x = 1 + 2\<close> matches no pattern: it is valid with score 100.\<close>

theorem validate_invariant_witness:
  "valid (validate ''x = 1 + 2'') \<and> vulnerabilities (validate ''x = 1 + 2'') = [] \<and>
   compliance_score (validate ''x = 1 + 2'') = 100"
proof -
  have v: "vulnerabilities (validate ''x = 1 + 2'') = []"
    by (simp add: validate_def Let_def scan_clean_example)
  from validate_invariant [of "''x = 1 + 2''"] v show ?thesis by simp
qed

lemma scan_sql_example:
  "fold (scan_category sql_example) patterns (0, []) =
     (1, [\<lparr>id_v = ''OWASP-0001'', category = ''A03:2021-Injection-SQL'',
          severity = Critical, title = ''SQL concatenation'',
          description = ''Potential SQL concatenation vulnerability detected'',
          location = Some ''Line 1'',
          remediation =
            Some ''Use parameterized queries or ORM instead of string concatenation''\<rparr>])"
  by code_simp

text \<open>
  Claim C4. Scanning the text \<^verbatim>\<open>query = "SELECT * FROM users WHERE id=' + user_id\<close>
  produces exactly one vulnerability, of the SQL-injection category and critical, and the
  result is not valid and has compliance score 75.
\<close>

theorem validate_sql_example:
  "validate (''query = '' @ [CHR 0x22] @ ''SELECT * FROM users WHERE id='' @ [CHR 0x27] @
             '' + user_id'') =
     \<lparr>valid = False,
      vulnerabilities =
        [\<lparr>id_v = ''OWASP-0001'', category = ''A03:2021-Injection-SQL'',
          severity = Critical, title = ''SQL concatenation'',
          description = ''Potential SQL concatenation vulnerability detected'',
          location = Some ''Line 1'',
          remediation =
            Some ''Use parameterized queries or ORM instead of string concatenation''\<rparr>],
      compliance_score = 75\<rparr>"
  unfolding sql_example_def [symmetric]
  by (simp add: validate_def Let_def scan_sql_example)

end
